theory Spec2Isabelle
  imports Complex_Main "HOL-Library.Word"
begin

section \<open>Python values\<close>

text \<open>
  A Python \<open>str\<close> is a sequence of Unicode code points. The scripts test single
  characters against the range \<open>\u4e00-\u9fff\<close> and replace the full-width comma
  \<open>\uff0c\<close>, so a string is a list of code points, each a natural number. ASCII
  literals of the source are written through \<open>ascii\<close>.
\<close>

type_synonym pystr = "nat list"

type_synonym bytes = "8 word list"

definition ascii :: "string \<Rightarrow> pystr" where
  "ascii s = map of_char s"

text \<open>
  What \<open>Response.json()\<close> returns: JSON \<open>null\<close> is Python's \<open>None\<close>, an object is
  a \<open>dict\<close> (kept as an association list, looked up with \<open>map_of\<close>), an array a
  \<open>list\<close>. The scripts never compute with a JSON number; they only truth-test values,
  so a number is carried as an integer.
\<close>

datatype pyval =
    PNone
  | PBool bool
  | PInt int
  | PStr pystr
  | PList "pyval list"
  | PDict "(pystr \<times> pyval) list"

text \<open>Python's truth value of an object, as \<open>if x:\<close> and \<open>not x\<close> test it.\<close>

fun truthy :: "pyval \<Rightarrow> bool" where
  "truthy PNone = False"
| "truthy (PBool b) = b"
| "truthy (PInt n) = (n \<noteq> 0)"
| "truthy (PStr s) = (s \<noteq> [])"
| "truthy (PList vs) = (vs \<noteq> [])"
| "truthy (PDict kvs) = (kvs \<noteq> [])"

section \<open>Voice selection\<close>

definition VOICE_ID_ZH :: pystr where
  "VOICE_ID_ZH = ascii ''4158cf2ef85d4ccc856aacb1c47dbb0c''"

definition VOICE_ID_EN :: pystr where
  "VOICE_ID_EN = ascii ''cef3bc4e0a84424cafcde6f2cf466c97''"

text \<open>
  \<open>re.search(r"[\u4e00-\u9fff]", text)\<close>: the first character of \<open>text\<close> in the
  class, or \<open>None\<close> when there is none. The class is one code-point range,
  \<open>0x4E00 = 19968\<close> to \<open>0x9FFF = 40959\<close>.
\<close>

definition in_cjk_class :: "nat \<Rightarrow> bool" where
  "in_cjk_class c = (19968 \<le> c \<and> c \<le> 40959)"

definition re_search_cjk :: "pystr \<Rightarrow> nat option" where
  "re_search_cjk s = find in_cjk_class s"

text \<open>\<open>HeyGen_PPT/main.py\<close>, \<open>detect_voice_id\<close>.\<close>

definition detect_voice_id :: "pystr \<Rightarrow> pystr" where
  "detect_voice_id s =
     (if re_search_cjk s \<noteq> None then VOICE_ID_ZH else VOICE_ID_EN)"

text \<open>The video-only script, \<open>detect_voice_and_locale\<close>.\<close>

definition detect_voice_and_locale :: "pystr \<Rightarrow> pystr \<times> pystr" where
  "detect_voice_and_locale s =
     (if re_search_cjk s \<noteq> None then (VOICE_ID_ZH, ascii ''zh-TW'')
      else (VOICE_ID_EN, ascii ''en-US''))"

section \<open>Exceptions and HTTP responses\<close>

text \<open>
  An f-string is kept as its parts: a literal piece of text, or \<open>str(v)\<close> of an
  interpolated value \<open>v\<close> (Python's \<open>str\<close> itself is not expanded).
\<close>

datatype fpart = Lit pystr | Fmt pyval

text \<open>
  Every way a call of the modelled functions can end in an exception.
  \<open>ConnectionError\<close> stands for whatever \<open>requests.get\<close> or \<open>requests.post\<close>
  raises; \<open>Exception\<close> carries the message of a \<open>raise Exception(f"...")\<close> of the
  scripts.
\<close>

datatype py_error =
    FileNotFoundError pystr
  | ConnectionError
  | JSONDecodeError
  | KeyError pystr
  | TypeError
  | AttributeError
  | Exception "fpart list"

definition and_then :: "'e + 'a \<Rightarrow> ('a \<Rightarrow> 'e + 'b) \<Rightarrow> 'e + 'b" where
  "and_then r f = (case r of Inl e \<Rightarrow> Inl e | Inr v \<Rightarrow> f v)"

text \<open>
  A \<open>requests.Response\<close>: the status code, \<open>.text\<close>, \<open>.content\<close> and what
  \<open>.json()\<close> returns (\<open>None\<close> when the body is not JSON and \<open>.json()\<close> raises).
\<close>

record response =
  status_code :: nat
  resp_text :: pystr
  resp_content :: bytes
  resp_json :: "pyval option"

datatype http_reply = Raises | Responds response

text \<open>\<open>Response.ok\<close>: \<open>raise_for_status\<close> raises for the codes 400 to 599.\<close>

definition response_ok :: "response \<Rightarrow> bool" where
  "response_ok resp = (status_code resp < 400 \<or> 600 \<le> status_code resp)"

definition response_json :: "response \<Rightarrow> py_error + pyval" where
  "response_json resp =
     (case resp_json resp of None \<Rightarrow> Inl JSONDecodeError | Some v \<Rightarrow> Inr v)"

text \<open>\<open>d.get(k, default)\<close> on the items of a dict.\<close>

definition dict_get :: "(pystr \<times> pyval) list \<Rightarrow> pystr \<Rightarrow> pyval \<Rightarrow> pyval" where
  "dict_get kvs k dflt = (case map_of kvs k of None \<Rightarrow> dflt | Some v \<Rightarrow> v)"

text \<open>
  \<open>v[k]\<close> with a string key: \<open>KeyError\<close> on a dict without the key,
  \<open>TypeError\<close> on \<open>None\<close>, a number, a string or a list.
\<close>

definition getitem :: "pyval \<Rightarrow> pystr \<Rightarrow> py_error + pyval" where
  "getitem v k =
     (case v of
        PDict kvs \<Rightarrow> (case map_of kvs k of None \<Rightarrow> Inl (KeyError k) | Some x \<Rightarrow> Inr x)
      | _ \<Rightarrow> Inl TypeError)"

text \<open>\<open>v.get(k, default)\<close>: only a dict has the method.\<close>

definition get_method :: "pyval \<Rightarrow> pystr \<Rightarrow> pyval \<Rightarrow> py_error + pyval" where
  "get_method v k dflt =
     (case v of PDict kvs \<Rightarrow> Inr (dict_get kvs k dflt) | _ \<Rightarrow> Inl AttributeError)"

text \<open>
  \<open>str.replace(old, new)\<close>: every non-overlapping occurrence, left to right. With an
  empty \<open>old\<close> Python puts \<open>new\<close> before every character and at the end.
\<close>

function replace_all :: "'a list \<Rightarrow> 'a list \<Rightarrow> 'a list \<Rightarrow> 'a list" where
  "replace_all old new [] = []"
| "replace_all old new (c # cs) =
     (if old \<noteq> [] \<and> take (length old) (c # cs) = old
      then new @ replace_all old new (drop (length old) (c # cs))
      else c # replace_all old new cs)"
  by pat_completeness auto
termination
  by (relation "measure (\<lambda>(old, new, s). length s)") (auto simp: neq_Nil_conv)

definition py_replace :: "'a list \<Rightarrow> 'a list \<Rightarrow> 'a list \<Rightarrow> 'a list" where
  "py_replace old new s =
     (if old = [] then new @ concat (map (\<lambda>c. c # new) s) else replace_all old new s)"

section \<open>The render request\<close>

text \<open>
  The JSON body posted to the generation endpoint, with the keys of the dict literals
  of \<open>create_full_video\<close>. A key that a variant leaves out is \<open>None\<close>. Decimal
  constants are kept as the rational the literal denotes.
\<close>

record character =
  character_type :: pystr
  talking_photo_id :: pystr
  scale :: rat
  offset :: "rat \<times> rat"
  talking_style :: "pystr option"
  character_fit :: "pystr option"

record voice =
  voice_type :: pystr
  voice_id :: pystr
  input_text :: pystr
  speed :: "rat option"

record background =
  background_type :: pystr
  image_asset_id :: pyval
  background_fit :: pystr

record scene =
  character :: character
  voice :: voice
  background :: background

record payload =
  video_inputs :: "scene list"
  aspect_ratio :: pystr
  test :: bool
  caption :: bool
  dimension :: "(nat \<times> nat) option"

section \<open>The environment\<close>

text \<open>
  Everything outside the scripts: the local image files and the replies of the service.
  \<^item> \<open>file_bytes path\<close>: the content of the file, \<open>None\<close> when it does not exist;
  \<^item> \<open>post_asset i data\<close>: the reply to the upload of input number \<open>i\<close>;
  \<^item> \<open>post_generate body\<close>: the reply of the generation endpoint;
  \<^item> \<open>get_status n video_id\<close>: the reply to the status request number \<open>n\<close>
    (from 0) of a polling loop;
  \<^item> \<open>get_url n url\<close>: the reply to a download of \<open>url\<close> made in polling round
    \<open>n\<close>.
  Local files opened for writing are taken to open and write without error.
\<close>

record env =
  file_bytes :: "pystr \<Rightarrow> bytes option"
  post_asset :: "nat \<Rightarrow> bytes \<Rightarrow> http_reply"
  post_generate :: "payload \<Rightarrow> http_reply"
  get_status :: "nat \<Rightarrow> pyval \<Rightarrow> http_reply"
  get_url :: "nat \<Rightarrow> pyval \<Rightarrow> http_reply"

section \<open>Uploading the background images\<close>

text \<open>
  \<open>upload_to_heygen\<close> of \<open>HeyGen_GoogleSearch/main.py\<close>: read the file, post it, and
  return \<open>resp.json()["data"]["id"]\<close>. The status code is not looked at.
\<close>

definition gs_upload_to_heygen :: "env \<Rightarrow> nat \<Rightarrow> pystr \<Rightarrow> py_error + pyval" where
  "gs_upload_to_heygen e i file_path =
     (case file_bytes e file_path of
        None \<Rightarrow> Inl (FileNotFoundError file_path)
      | Some data \<Rightarrow>
          (case post_asset e i data of
             Raises \<Rightarrow> Inl ConnectionError
           | Responds resp \<Rightarrow>
               and_then (response_json resp) (\<lambda>j.
               and_then (getitem j (ascii ''data'')) (\<lambda>d.
               getitem d (ascii ''id'')))))"

text \<open>
  \<open>upload_to_heygen\<close> of \<open>HeyGen_Youtube/main.py\<close>: the same, but a response that is
  not \<open>ok\<close> raises with the response text; the \<open>except\<close> clause prints and re-raises.
\<close>

definition yt_upload_failed :: pystr where
  "yt_upload_failed = ascii ''HeyGen '' @ [22294, 29255, 19978, 20659, 22833, 25943, 58, 32]"

definition yt_upload_to_heygen :: "env \<Rightarrow> nat \<Rightarrow> pystr \<Rightarrow> py_error + pyval" where
  "yt_upload_to_heygen e i file_path =
     (case file_bytes e file_path of
        None \<Rightarrow> Inl (FileNotFoundError file_path)
      | Some data \<Rightarrow>
          (case post_asset e i data of
             Raises \<Rightarrow> Inl ConnectionError
           | Responds resp \<Rightarrow>
               if \<not> response_ok resp
               then Inl (Exception [Lit yt_upload_failed, Fmt (PStr (resp_text resp))])
               else and_then (response_json resp) (\<lambda>j.
                    and_then (getitem j (ascii ''data'')) (\<lambda>d.
                    getitem d (ascii ''id'')))))"

text \<open>
  \<open>upload_to_heygen\<close> of \<open>HeyGen_PPT/main.py\<close>: a missing file and a status code
  other than 200 raise.
\<close>

definition ppt_upload_failed :: pystr where
  "ppt_upload_failed = ascii ''HeyGen '' @ [19978, 20659, 22833, 25943, 32, 40]"

definition ppt_upload_to_heygen :: "env \<Rightarrow> nat \<Rightarrow> pystr \<Rightarrow> py_error + pyval" where
  "ppt_upload_to_heygen e i file_path =
     (case file_bytes e file_path of
        None \<Rightarrow> Inl (FileNotFoundError file_path)
      | Some file_data \<Rightarrow>
          (case post_asset e i file_data of
             Raises \<Rightarrow> Inl ConnectionError
           | Responds resp \<Rightarrow>
               if status_code resp = 200
               then and_then (response_json resp) (\<lambda>j.
                    and_then (getitem j (ascii ''data'')) (\<lambda>d.
                    getitem d (ascii ''id'')))
               else Inl (Exception [Lit ppt_upload_failed, Fmt (PInt (int (status_code resp))),
                                    Lit (ascii ''): ''), Fmt (PStr (resp_text resp))])))"

subsection \<open>The thread pool\<close>

text \<open>
  \<open>ThreadPoolExecutor(max_workers=5)\<close> and \<open>list(executor.map(f, xs))\<close>, as
  \<open>concurrent.futures\<close> documents them. \<open>map\<close> submits one task per input, in input
  order, and each task gets a future. The pool runs at most \<open>max_workers\<close> tasks at a
  time, taking them from its queue in submission order, so the running tasks are the
  first \<open>max_workers\<close> of those not yet finished; which of them finishes next is not
  determined, and \<open>pick\<close> decides it at every step. A task that finishes stores its
  result, or the exception it raised, in its future. The iterator that \<open>list\<close>
  consumes reads the futures in submission order and re-raises the first exception it
  meets. One upload is taken as one step.
\<close>

definition max_workers :: nat where
  "max_workers = 5"

function pool_order :: "(nat \<Rightarrow> nat) \<Rightarrow> nat \<Rightarrow> nat list \<Rightarrow> nat list" where
  "pool_order pick step pending =
     (if pending = [] then []
      else pending ! (pick step mod min max_workers (length pending))
           # pool_order pick (Suc step)
               (take (pick step mod min max_workers (length pending)) pending
                @ drop (Suc (pick step mod min max_workers (length pending))) pending))"
  by pat_completeness auto
termination
proof (relation "measure (\<lambda>(pick, step, pending). length pending)")
  show "wf (measure (\<lambda>(pick, step, pending). length pending))"
    by simp
next
  fix pick :: "nat \<Rightarrow> nat" and step :: nat and pending :: "nat list"
  assume ne: "pending \<noteq> []"
  let ?k = "pick step mod min max_workers (length pending)"
  have "0 < min max_workers (length pending)"
    using ne by (simp add: max_workers_def)
  then have "?k < min max_workers (length pending)"
    by (rule mod_less_divisor)
  then have "?k < length pending"
    by simp
  then show "((pick, Suc step, take ?k pending @ drop (Suc ?k) pending), (pick, step, pending))
      \<in> measure (\<lambda>(pick, step, pending). length pending)"
    by simp
qed

fun complete_tasks ::
  "(nat \<Rightarrow> 'a \<Rightarrow> 'b) \<Rightarrow> 'a list \<Rightarrow> (nat \<rightharpoonup> 'b) \<Rightarrow> nat list \<Rightarrow> (nat \<rightharpoonup> 'b)" where
  "complete_tasks f xs futures [] = futures"
| "complete_tasks f xs futures (i # order) =
     complete_tasks f xs (futures(i \<mapsto> f i (xs ! i))) order"

text \<open>
  The result iterator. A future that never got a result would block the caller for
  ever: \<open>None\<close>.
\<close>

fun result_iterator ::
  "(nat \<rightharpoonup> py_error + 'b) \<Rightarrow> nat list \<Rightarrow> (py_error + 'b list) option" where
  "result_iterator futures [] = Some (Inr [])"
| "result_iterator futures (i # rest) =
     (case futures i of
        None \<Rightarrow> None
      | Some (Inl err) \<Rightarrow> Some (Inl err)
      | Some (Inr v) \<Rightarrow>
          (case result_iterator futures rest of
             None \<Rightarrow> None
           | Some (Inl err) \<Rightarrow> Some (Inl err)
           | Some (Inr vs) \<Rightarrow> Some (Inr (v # vs))))"

definition executor_map ::
  "(nat \<Rightarrow> nat) \<Rightarrow> (nat \<Rightarrow> 'a \<Rightarrow> py_error + 'b) \<Rightarrow> 'a list \<Rightarrow> (py_error + 'b list) option" where
  "executor_map pick f xs =
     result_iterator
       (complete_tasks f xs Map.empty (pool_order pick 0 [0..<length xs]))
       [0..<length xs]"

section \<open>Submitting the render job\<close>

definition TALKING_PHOTO_ID :: pystr where
  "TALKING_PHOTO_ID = ascii ''8c6187262e744939bb335949024e3ec5''"

text \<open>The full-width comma \<open>\uff0c\<close>, and the same followed by a space.\<close>

definition fullwidth_comma :: pystr where
  "fullwidth_comma = [65292]"

definition fullwidth_comma_space :: pystr where
  "fullwidth_comma_space = [65292, 32]"

text \<open>
  The result of \<open>create_full_video\<close> is the list of bodies it posted to the generation
  endpoint, in order, and the value it returns or the exception it ends in.
\<close>

type_synonym submit_result = "payload list \<times> (py_error + pyval)"

subsection \<open>\<open>HeyGen_GoogleSearch/main.py\<close>\<close>

definition gs_scene :: "pyval \<Rightarrow> pystr \<Rightarrow> scene" where
  "gs_scene bg_id script =
     \<lparr> character =
         \<lparr> character_type = ascii ''talking_photo'',
           talking_photo_id = TALKING_PHOTO_ID,
           scale = 0.25,
           offset = (0.4, 0.4),
           talking_style = None,
           character_fit = None \<rparr>,
       voice =
         \<lparr> voice_type = ascii ''text'',
           voice_id = (if re_search_cjk script \<noteq> None then VOICE_ID_ZH else VOICE_ID_EN),
           input_text = py_replace fullwidth_comma fullwidth_comma_space script,
           speed = None \<rparr>,
       background =
         \<lparr> background_type = ascii ''image'',
           image_asset_id = bg_id,
           background_fit = ascii ''contain'' \<rparr> \<rparr>"

definition gs_payload :: "pyval list \<Rightarrow> pystr list \<Rightarrow> payload" where
  "gs_payload bg_ids scripts =
     \<lparr> video_inputs = map (\<lambda>(bg_id, script). gs_scene bg_id script) (zip bg_ids scripts),
       aspect_ratio = ascii ''16:9'',
       test = False,
       caption = True,
       dimension = None \<rparr>"

text \<open>Lines 312 and 313: post, then \<open>resp.json()["data"]["video_id"]\<close>, unchecked.\<close>

definition gs_post_generate :: "env \<Rightarrow> payload \<Rightarrow> py_error + pyval" where
  "gs_post_generate e body =
     (case post_generate e body of
        Raises \<Rightarrow> Inl ConnectionError
      | Responds resp \<Rightarrow>
          and_then (response_json resp) (\<lambda>j.
          and_then (getitem j (ascii ''data'')) (\<lambda>d.
          getitem d (ascii ''video_id''))))"

definition gs_create_full_video ::
  "(nat \<Rightarrow> nat) \<Rightarrow> env \<Rightarrow> pystr list \<Rightarrow> pystr list \<Rightarrow> submit_result option" where
  "gs_create_full_video pick e image_paths scripts =
     (case executor_map pick (gs_upload_to_heygen e) image_paths of
        None \<Rightarrow> None
      | Some (Inl err) \<Rightarrow> Some ([], Inl err)
      | Some (Inr bg_ids) \<Rightarrow>
          Some ([gs_payload bg_ids scripts], gs_post_generate e (gs_payload bg_ids scripts)))"

subsection \<open>\<open>HeyGen_Youtube/main.py\<close>\<close>

definition VOICE_SPEED :: rat where
  "VOICE_SPEED = 1.1"

definition yt_scene :: "pyval \<Rightarrow> pystr \<Rightarrow> scene" where
  "yt_scene bg_id script =
     \<lparr> character =
         \<lparr> character_type = ascii ''talking_photo'',
           talking_photo_id = TALKING_PHOTO_ID,
           scale = 0.25,
           offset = (0.4, 0.4),
           talking_style = None,
           character_fit = None \<rparr>,
       voice =
         \<lparr> voice_type = ascii ''text'',
           voice_id = (if re_search_cjk script \<noteq> None then VOICE_ID_ZH else VOICE_ID_EN),
           input_text = py_replace fullwidth_comma fullwidth_comma_space script,
           speed = Some VOICE_SPEED \<rparr>,
       background =
         \<lparr> background_type = ascii ''image'',
           image_asset_id = bg_id,
           background_fit = ascii ''contain'' \<rparr> \<rparr>"

definition yt_payload :: "pyval list \<Rightarrow> pystr list \<Rightarrow> payload" where
  "yt_payload bg_ids scripts =
     \<lparr> video_inputs = map (\<lambda>(bg_id, script). yt_scene bg_id script) (zip bg_ids scripts),
       aspect_ratio = ascii ''16:9'',
       test = False,
       caption = False,
       dimension = None \<rparr>"

definition yt_rejected :: pystr where
  "yt_rejected =
     ascii ''HeyGen '' @ [24433, 29255, 29983, 25104, 35531, 27714, 34987, 25298, 32085, 58, 32]"

text \<open>Lines 514 to 521: a response that is not \<open>ok\<close> raises with \<open>resp.text\<close>.\<close>

definition yt_post_generate :: "env \<Rightarrow> payload \<Rightarrow> py_error + pyval" where
  "yt_post_generate e body =
     (case post_generate e body of
        Raises \<Rightarrow> Inl ConnectionError
      | Responds resp \<Rightarrow>
          if \<not> response_ok resp
          then Inl (Exception [Lit yt_rejected, Fmt (PStr (resp_text resp))])
          else and_then (response_json resp) (\<lambda>j.
               and_then (getitem j (ascii ''data'')) (\<lambda>d.
               getitem d (ascii ''video_id''))))"

definition yt_create_full_video ::
  "(nat \<Rightarrow> nat) \<Rightarrow> env \<Rightarrow> pystr list \<Rightarrow> pystr list \<Rightarrow> submit_result option" where
  "yt_create_full_video pick e image_paths scripts =
     (case executor_map pick (yt_upload_to_heygen e) image_paths of
        None \<Rightarrow> None
      | Some (Inl err) \<Rightarrow> Some ([], Inl err)
      | Some (Inr bg_ids) \<Rightarrow>
          Some ([yt_payload bg_ids scripts], yt_post_generate e (yt_payload bg_ids scripts)))"

subsection \<open>\<open>HeyGen_PPT/main.py\<close>\<close>

definition ppt_scene :: "pyval \<Rightarrow> pystr \<Rightarrow> scene" where
  "ppt_scene bg_asset_id script =
     \<lparr> character =
         \<lparr> character_type = ascii ''talking_photo'',
           talking_photo_id = TALKING_PHOTO_ID,
           scale = 0.25,
           offset = (0.4, 0.4),
           talking_style = Some (ascii ''stable''),
           character_fit = Some (ascii ''cover'') \<rparr>,
       voice =
         \<lparr> voice_type = ascii ''text'',
           voice_id = detect_voice_id script,
           input_text = script,
           speed = Some 1.0 \<rparr>,
       background =
         \<lparr> background_type = ascii ''image'',
           image_asset_id = bg_asset_id,
           background_fit = ascii ''contain'' \<rparr> \<rparr>"

text \<open>
  The loop of lines 175 to 202 uploads one image per pair of \<open>zip(image_paths,
  scripts)\<close>, in order, and stops at the first upload that raises. \<open>i\<close> is the
  index \<open>enumerate\<close> counts.
\<close>

fun ppt_scenes :: "env \<Rightarrow> nat \<Rightarrow> (pystr \<times> pystr) list \<Rightarrow> py_error + scene list" where
  "ppt_scenes e i [] = Inr []"
| "ppt_scenes e i ((img_path, script) # rest) =
     (case ppt_upload_to_heygen e i img_path of
        Inl err \<Rightarrow> Inl err
      | Inr bg_asset_id \<Rightarrow>
          (case ppt_scenes e (Suc i) rest of
             Inl err \<Rightarrow> Inl err
           | Inr scenes \<Rightarrow> Inr (ppt_scene bg_asset_id script # scenes)))"

definition ppt_payload :: "scene list \<Rightarrow> payload" where
  "ppt_payload scenes =
     \<lparr> video_inputs = scenes,
       aspect_ratio = ascii ''16:9'',
       test = False,
       caption = True,
       dimension = Some (1280, 720) \<rparr>"

definition ppt_task_failed :: pystr where
  "ppt_task_failed = ascii ''HeyGen '' @ [20219, 21209, 22833, 25943, 58, 32]"

text \<open>
  Lines 217 to 225. \<open>response.json()\<close> is called before the test; in the test
  \<open>data.get("error")\<close> is evaluated only when the status code is 200.
\<close>

definition ppt_post_generate :: "env \<Rightarrow> payload \<Rightarrow> py_error + pyval" where
  "ppt_post_generate e body =
     (case post_generate e body of
        Raises \<Rightarrow> Inl ConnectionError
      | Responds resp \<Rightarrow>
          and_then (response_json resp) (\<lambda>data.
            if status_code resp = 200
            then and_then (get_method data (ascii ''error'') PNone) (\<lambda>err.
                   if \<not> truthy err
                   then and_then (getitem data (ascii ''data'')) (\<lambda>d.
                        getitem d (ascii ''video_id''))
                   else Inl (Exception [Lit ppt_task_failed, Fmt data]))
            else Inl (Exception [Lit ppt_task_failed, Fmt data])))"

definition ppt_create_full_video :: "env \<Rightarrow> pystr list \<Rightarrow> pystr list \<Rightarrow> submit_result" where
  "ppt_create_full_video e image_paths scripts =
     (case ppt_scenes e 0 (zip image_paths scripts) of
        Inl err \<Rightarrow> ([], Inl err)
      | Inr scenes \<Rightarrow> ([ppt_payload scenes], ppt_post_generate e (ppt_payload scenes)))"

section \<open>Waiting for the render and downloading\<close>

text \<open>
  What \<open>download_video\<close> does to the outside, in order: a status request, a sleep of
  so many seconds, a file opened for writing, a download request, bytes written to a
  file. \<open>Report\<close> is the one \<open>print\<close> that is modelled, the line by which the
  \<open>HeyGen_PPT\<close> variant tells of a failed render. \<open>Save_caption\<close> stands for lines
  332 to 348 of \<open>HeyGen_PPT/main.py\<close>, which store the caption text beside the video
  and rewrite the file's subtitle format; they run inside their own \<open>try\<close> and cannot
  end the loop.
\<close>

datatype event =
    Status pyval
  | Sleep nat
  | Open_wb pystr
  | Fetch pyval
  | Write pystr bytes
  | Report "fpart list"
  | Save_caption pystr pystr

type_synonym poll_result = "event list \<times> (py_error + unit)"

definition later :: "event list \<Rightarrow> poll_result option \<Rightarrow> poll_result option" where
  "later evs r = (case r of None \<Rightarrow> None | Some (tr, res) \<Rightarrow> Some (evs @ tr, res))"

definition render_failed :: pystr where
  "render_failed = [28210, 26579, 22833, 25943, 58, 32]"

subsection \<open>\<open>HeyGen_GoogleSearch/main.py\<close>\<close>

text \<open>
  The \<open>try\<close> block of lines 324 to 327: the items of \<open>data\<close> and the status, or the
  exception that the bare \<open>except\<close> catches.
\<close>

definition gs_poll_status ::
  "env \<Rightarrow> nat \<Rightarrow> pyval \<Rightarrow> py_error + ((pystr \<times> pyval) list \<times> pyval)" where
  "gs_poll_status e n video_id =
     (case get_status e n video_id of
        Raises \<Rightarrow> Inl ConnectionError
      | Responds resp \<Rightarrow>
          and_then (response_json resp) (\<lambda>r.
          and_then (get_method r (ascii ''data'') (PDict [])) (\<lambda>data.
            case data of
              PDict kvs \<Rightarrow> Inr (kvs, dict_get kvs (ascii ''status'') PNone)
            | _ \<Rightarrow> Inl AttributeError)))"

text \<open>
  \<open>with open(path, "wb") as f: f.write(requests.get(url).content)\<close>: the file is
  opened first, and an exception of the request leaves the function.
\<close>

definition gs_save :: "env \<Rightarrow> nat \<Rightarrow> pystr \<Rightarrow> pyval \<Rightarrow> poll_result" where
  "gs_save e n path url =
     (case get_url e n url of
        Raises \<Rightarrow> ([Open_wb path, Fetch url], Inl ConnectionError)
      | Responds resp \<Rightarrow> ([Open_wb path, Fetch url, Write path (resp_content resp)], Inr ()))"

text \<open>Lines 331 to 339, the branch of \<open>status == "completed"\<close>.\<close>

definition gs_completed ::
  "env \<Rightarrow> nat \<Rightarrow> pystr \<Rightarrow> (pystr \<times> pyval) list \<Rightarrow> poll_result" where
  "gs_completed e n output_video_path data =
     (case (if truthy (dict_get data (ascii ''video_url'') PNone)
            then gs_save e n output_video_path (dict_get data (ascii ''video_url'') PNone)
            else ([], Inr ())) of
        (evs, Inl err) \<Rightarrow> (evs, Inl err)
      | (evs, Inr _) \<Rightarrow>
          (if truthy (dict_get data (ascii ''caption_url'') PNone)
           then (case gs_save e n (py_replace (ascii ''.mp4'') (ascii ''.srt'') output_video_path)
                        (dict_get data (ascii ''caption_url'') PNone) of
                   (evs', res) \<Rightarrow> (evs @ evs', res))
           else (evs, Inr ())))"

text \<open>
  The loop \<open>while True\<close>. \<open>n\<close> counts the status requests made so far; \<open>fuel\<close> bounds
  the number of rounds, and \<open>None\<close> says that the loop is still running when the fuel
  is used up. A call of \<open>download_video\<close> starts with \<open>n = 0\<close>.
\<close>

fun gs_download_video ::
  "env \<Rightarrow> pyval \<Rightarrow> pystr \<Rightarrow> nat \<Rightarrow> nat \<Rightarrow> poll_result option" where
  "gs_download_video e video_id output_video_path n 0 = None"
| "gs_download_video e video_id output_video_path n (Suc fuel) =
     (case gs_poll_status e n video_id of
        Inl err \<Rightarrow>
          later [Status video_id, Sleep 5]
            (gs_download_video e video_id output_video_path (Suc n) fuel)
      | Inr (data, status) \<Rightarrow>
          if status = PStr (ascii ''completed'')
          then (case gs_completed e n output_video_path data of
                  (evs, res) \<Rightarrow> Some (Status video_id # evs, res))
          else if status = PStr (ascii ''failed'')
          then Some ([Status video_id],
                     Inl (Exception [Lit render_failed, Fmt (dict_get data (ascii ''error'') PNone)]))
          else later [Status video_id, Sleep 15]
                 (gs_download_video e video_id output_video_path (Suc n) fuel))"

subsection \<open>\<open>HeyGen_PPT/main.py\<close>\<close>

text \<open>Lines 312 to 314: \<open>resp.json()["data"]\<close> and \<open>data["status"]\<close>, by subscript.\<close>

definition ppt_poll_status ::
  "env \<Rightarrow> nat \<Rightarrow> pyval \<Rightarrow> py_error + ((pystr \<times> pyval) list \<times> pyval)" where
  "ppt_poll_status e n video_id =
     (case get_status e n video_id of
        Raises \<Rightarrow> Inl ConnectionError
      | Responds resp \<Rightarrow>
          and_then (response_json resp) (\<lambda>r.
          and_then (getitem r (ascii ''data'')) (\<lambda>data.
          and_then (getitem data (ascii ''status'')) (\<lambda>status.
            case data of
              PDict kvs \<Rightarrow> Inr (kvs, status)
            | _ \<Rightarrow> Inl TypeError))))"

text \<open>
  The caption block, lines 328 to 353: its own \<open>try\<close> swallows every exception.
\<close>

definition ppt_caption :: "env \<Rightarrow> nat \<Rightarrow> pystr \<Rightarrow> pyval \<Rightarrow> event list" where
  "ppt_caption e n output_filename caption_url =
     (if truthy caption_url
      then (case get_url e n caption_url of
              Raises \<Rightarrow> [Fetch caption_url]
            | Responds sub_resp \<Rightarrow>
                [Fetch caption_url, Save_caption output_filename (resp_text sub_resp)])
      else [])"

text \<open>
  One round of the loop, lines 311 to 367: the events of the round, and whether it
  ends in \<open>break\<close>. Everything is inside the \<open>try\<close>, so an exception of the status
  request, of the subscripts or of the video download ends in the \<open>except\<close> clause,
  which sleeps ten seconds and lets the loop go round again.
\<close>

definition ppt_round :: "env \<Rightarrow> nat \<Rightarrow> pyval \<Rightarrow> pystr \<Rightarrow> event list \<times> bool" where
  "ppt_round e n video_id output_filename =
     (case ppt_poll_status e n video_id of
        Inl err \<Rightarrow> ([Status video_id, Sleep 10], False)
      | Inr (data, status) \<Rightarrow>
          if status = PStr (ascii ''completed'')
          then (if truthy (dict_get data (ascii ''video_url'') PNone)
                then (case get_url e n (dict_get data (ascii ''video_url'') PNone) of
                        Raises \<Rightarrow>
                          ([Status video_id, Fetch (dict_get data (ascii ''video_url'') PNone),
                            Sleep 10], False)
                      | Responds resp \<Rightarrow>
                          ([Status video_id, Fetch (dict_get data (ascii ''video_url'') PNone),
                            Open_wb output_filename, Write output_filename (resp_content resp)]
                           @ ppt_caption e n output_filename
                               (dict_get data (ascii ''caption_url'') PNone), True))
                else (Status video_id
                      # ppt_caption e n output_filename
                          (dict_get data (ascii ''caption_url'') PNone), True))
          else if status = PStr (ascii ''failed'')
          then ([Status video_id,
                 Report [Lit (ascii ''    '' @ render_failed),
                         Fmt (dict_get data (ascii ''error'') PNone)]], True)
          else ([Status video_id, Sleep 10], False))"

fun ppt_download_video ::
  "env \<Rightarrow> pyval \<Rightarrow> pystr \<Rightarrow> nat \<Rightarrow> nat \<Rightarrow> poll_result option" where
  "ppt_download_video e video_id output_filename n 0 = None"
| "ppt_download_video e video_id output_filename n (Suc fuel) =
     (case ppt_round e n video_id output_filename of
        (evs, True) \<Rightarrow> Some (evs, Inr ())
      | (evs, False) \<Rightarrow>
          later evs (ppt_download_video e video_id output_filename (Suc n) fuel))"

section \<open>Notions used in the statements\<close>

text \<open>
  Reading a list of results one after the other, as a sequential loop would: the first
  exception in list order, or all the values.
\<close>

fun gather_in_order :: "('e + 'b) list \<Rightarrow> 'e + 'b list" where
  "gather_in_order [] = Inr []"
| "gather_in_order (r # rs) =
     (case r of
        Inl err \<Rightarrow> Inl err
      | Inr v \<Rightarrow> (case gather_in_order rs of Inl err \<Rightarrow> Inl err | Inr vs \<Rightarrow> Inr (v # vs)))"

text \<open>Status values that end the polling.\<close>

definition terminal_status :: "pyval \<Rightarrow> bool" where
  "terminal_status status =
     (status = PStr (ascii ''completed'') \<or> status = PStr (ascii ''failed''))"

text \<open>Status request number \<open>n\<close> is answered, and with a terminal status.\<close>

definition gs_terminal :: "env \<Rightarrow> nat \<Rightarrow> pyval \<Rightarrow> bool" where
  "gs_terminal e n video_id =
     (case gs_poll_status e n video_id of
        Inl err \<Rightarrow> False
      | Inr (data, status) \<Rightarrow> terminal_status status)"

definition ppt_terminal :: "env \<Rightarrow> nat \<Rightarrow> pyval \<Rightarrow> bool" where
  "ppt_terminal e n video_id =
     (case ppt_poll_status e n video_id of
        Inl err \<Rightarrow> False
      | Inr (data, status) \<Rightarrow> terminal_status status)"


text \<open>Counting the status requests and the download requests of a trace.\<close>

fun is_status :: "event \<Rightarrow> bool" where
  "is_status (Status video_id) = True"
| "is_status ev = False"

fun is_fetch :: "event \<Rightarrow> bool" where
  "is_fetch (Fetch url) = True"
| "is_fetch ev = False"

definition status_requests :: "event list \<Rightarrow> nat" where
  "status_requests tr = length (filter is_status tr)"

definition downloads :: "event list \<Rightarrow> nat" where
  "downloads tr = length (filter is_fetch tr)"

section \<open>Example environments\<close>

text \<open>Concrete replies, on which the statements below are evaluated.\<close>

definition json_response :: "nat \<Rightarrow> pyval \<Rightarrow> response" where
  "json_response code j =
     \<lparr> status_code = code, resp_text = [], resp_content = [], resp_json = Some j \<rparr>"

definition file_response :: "bytes \<Rightarrow> response" where
  "file_response b =
     \<lparr> status_code = 200, resp_text = [], resp_content = b, resp_json = None \<rparr>"

definition processing_data :: "(pystr \<times> pyval) list" where
  "processing_data = [(ascii ''status'', PStr (ascii ''processing''))]"

definition completed_data :: "(pystr \<times> pyval) list" where
  "completed_data =
     [(ascii ''status'', PStr (ascii ''completed'')),
      (ascii ''video_url'', PStr (ascii ''https://cdn/v.mp4'')),
      (ascii ''caption_url'', PStr (ascii ''https://cdn/v.ass''))]"

definition failed_data :: "(pystr \<times> pyval) list" where
  "failed_data =
     [(ascii ''status'', PStr (ascii ''failed'')),
      (ascii ''error'', PStr (ascii ''invalid asset''))]"

definition processing_reply :: http_reply where
  "processing_reply =
     Responds (json_response 200 (PDict [(ascii ''data'', PDict processing_data)]))"

definition completed_reply :: http_reply where
  "completed_reply =
     Responds (json_response 200 (PDict [(ascii ''data'', PDict completed_data)]))"

definition failed_reply :: http_reply where
  "failed_reply =
     Responds (json_response 200 (PDict [(ascii ''data'', PDict failed_data)]))"

definition example_env :: env where
  "example_env =
     \<lparr> file_bytes = (\<lambda>p. if p = ascii ''missing.png'' then None else Some [137, 80, 78, 71]),
       post_asset = (\<lambda>i data.
         Responds (json_response 200
           (PDict [(ascii ''data'', PDict [(ascii ''id'', PStr (ascii ''asset'' @ [48 + i]))])]))),
       post_generate = (\<lambda>body.
         Responds (json_response 200
           (PDict [(ascii ''data'', PDict [(ascii ''video_id'', PStr (ascii ''v1''))])]))),
       get_status = (\<lambda>n video_id. if n = 0 then processing_reply else completed_reply),
       get_url = (\<lambda>n url. Responds (file_response [1, 2, 3])) \<rparr>"

text \<open>A pool in which the uploads do not finish in input order.\<close>

definition out_of_order :: "nat \<Rightarrow> nat" where
  "out_of_order step = 4"

text \<open>
  A generation endpoint that declines the job with status 400 and the body
  \<open>{"error":"quota"}\<close>, and one that answers 200 with
  \<open>{"error":"quota","data":null}\<close>.
\<close>

definition declined_response :: response where
  "declined_response =
     \<lparr> status_code = 400,
       resp_text = [123, 34, 101, 114, 114, 111, 114, 34, 58, 34, 113, 117, 111, 116, 97, 34, 125],
       resp_content = [],
       resp_json = Some (PDict [(ascii ''error'', PStr (ascii ''quota''))]) \<rparr>"

definition declining_env :: env where
  "declining_env = example_env \<lparr> post_generate := (\<lambda>body. Responds declined_response) \<rparr>"




text \<open>
  Status endpoints: one that reports \<open>failed\<close> on the second request, one that
  cannot be reached twice and then reports \<open>completed\<close>, one that can never be
  reached. And a service whose first download breaks after \<open>completed\<close>.
\<close>

definition failing_env :: env where
  "failing_env =
     example_env \<lparr> get_status := (\<lambda>n video_id. if n = 0 then processing_reply else failed_reply) \<rparr>"






section \<open>Basic facts\<close>

lemma ascii_eq_iff [simp]: "(ascii s = ascii t) = (s = t)"
  unfolding ascii_def by (rule inj_map_eq_map) (rule inj_of_char)

lemma ascii_Nil [simp]: "ascii [] = []"
  by (simp add: ascii_def)

lemma ascii_not_cjk: "c \<in> set (ascii s) \<Longrightarrow> \<not> in_cjk_class c"
proof -
  assume "c \<in> set (ascii s)"
  then obtain ch :: char where c: "c = of_char ch"
    by (auto simp: ascii_def)
  have "(of_char ch :: nat) < 256"
    by (rule nat_of_char_less_256)
  with c show ?thesis
    unfolding in_cjk_class_def by linarith
qed

lemma re_search_cjk_None: "(re_search_cjk s = None) = (\<forall>c \<in> set s. \<not> in_cjk_class c)"
  by (auto simp add: re_search_cjk_def find_None_iff)

lemma re_search_cjk_ascii [simp]: "re_search_cjk (ascii s) = None"
  by (simp add: re_search_cjk_None ascii_not_cjk)

lemma voice_ids_differ: "VOICE_ID_ZH \<noteq> VOICE_ID_EN"
  by (simp add: VOICE_ID_ZH_def VOICE_ID_EN_def)

section \<open>Voice selection follows the CJK test\<close>

text \<open>
  C7. For every text, \<open>detect_voice_id\<close> returns the Chinese voice id exactly when the
  text has a character in the range \<open>0x4E00\<close> to \<open>0x9FFF\<close>, and the English voice id
  otherwise; \<open>detect_voice_and_locale\<close> pairs the same choice with the locale
  \<open>zh-TW\<close>, respectively \<open>en-US\<close>. The two voice ids differ, so the choice can be
  read back from the result.
\<close>

theorem voice_selection_iff_cjk:
  "detect_voice_id s =
     (if \<exists>c \<in> set s. 19968 \<le> c \<and> c \<le> 40959 then VOICE_ID_ZH else VOICE_ID_EN)
   \<and> detect_voice_and_locale s =
     (if \<exists>c \<in> set s. 19968 \<le> c \<and> c \<le> 40959 then (VOICE_ID_ZH, ascii ''zh-TW'')
      else (VOICE_ID_EN, ascii ''en-US''))
   \<and> (detect_voice_id s = VOICE_ID_ZH) = (\<exists>c \<in> set s. 19968 \<le> c \<and> c \<le> 40959)
   \<and> (fst (detect_voice_and_locale s) = VOICE_ID_ZH) = (\<exists>c \<in> set s. 19968 \<le> c \<and> c \<le> 40959)"
proof -
  have cjk: "(re_search_cjk s = None) = (\<not> (\<exists>c \<in> set s. 19968 \<le> c \<and> c \<le> 40959))"
    by (simp add: re_search_cjk_None in_cjk_class_def)
  show ?thesis
    using voice_ids_differ
    by (simp add: detect_voice_id_def detect_voice_and_locale_def cjk)
qed

theorem voice_selection_iff_cjk_witness:
  "detect_voice_id [72, 105, 65292, 20320, 22909] = VOICE_ID_ZH
   \<and> detect_voice_and_locale [72, 105, 65292, 20320, 22909] = (VOICE_ID_ZH, ascii ''zh-TW'')
   \<and> detect_voice_id [72, 105, 65292] = VOICE_ID_EN
   \<and> detect_voice_and_locale [72, 105, 65292] = (VOICE_ID_EN, ascii ''en-US'')"
  using voice_selection_iff_cjk [of "[72, 105, 65292, 20320, 22909]"]
    voice_selection_iff_cjk [of "[72, 105, 65292]"]
  by simp

section \<open>The thread pool\<close>

declare pool_order.simps [simp del]

lemma pool_order_set: "set (pool_order pick step pending) = set pending"
proof (induction pick step pending rule: pool_order.induct)
  case (1 pick step pending)
  show ?case
  proof (cases "pending = []")
    case True
    then show ?thesis by (subst pool_order.simps) simp
  next
    case False
    let ?k = "pick step mod min max_workers (length pending)"
    have "0 < min max_workers (length pending)"
      using False by (simp add: max_workers_def)
    then have "?k < min max_workers (length pending)"
      by (rule mod_less_divisor)
    then have k: "?k < length pending"
      by simp
    have split: "pending = take ?k pending @ pending ! ?k # drop (Suc ?k) pending"
      using k by (rule id_take_nth_drop)
    have "set pending = set (take ?k pending @ pending ! ?k # drop (Suc ?k) pending)"
      using split by simp
    also have "\<dots> = insert (pending ! ?k) (set (take ?k pending @ drop (Suc ?k) pending))"
      by simp
    finally have sp: "set pending = insert (pending ! ?k) (set (take ?k pending @ drop (Suc ?k) pending))" .
    have "set (pool_order pick step pending) =
        insert (pending ! ?k) (set (pool_order pick (Suc step) (take ?k pending @ drop (Suc ?k) pending)))"
      using False by (subst pool_order.simps) simp
    also have "\<dots> = insert (pending ! ?k) (set (take ?k pending @ drop (Suc ?k) pending))"
      using "1.IH" [OF False] by simp
    finally show ?thesis using sp by simp
  qed
qed

lemma complete_tasks_apply:
  "complete_tasks f xs futures order i =
     (if i \<in> set order then Some (f i (xs ! i)) else futures i)"
  by (induction order arbitrary: futures) auto

lemma result_iterator_all:
  "(\<forall>i \<in> set idxs. futures i = Some (g i)) \<Longrightarrow>
   result_iterator futures idxs = Some (gather_in_order (map g idxs))"
  by (induction idxs) (auto split: sum.splits)

lemma executor_map_eq:
  "executor_map pick f xs = Some (gather_in_order (map (\<lambda>i. f i (xs ! i)) [0..<length xs]))"
  unfolding executor_map_def
  by (rule result_iterator_all) (simp add: complete_tasks_apply pool_order_set)

lemma gather_in_order_map_Inr: "gather_in_order (map Inr vs) = Inr vs"
  by (induction vs) auto

lemma gather_in_order_Inr: "(gather_in_order rs = Inr vs) = (rs = map Inr vs)"
proof
  show "gather_in_order rs = Inr vs \<Longrightarrow> rs = map Inr vs"
    by (induction rs arbitrary: vs) (auto split: sum.splits)
next
  show "rs = map Inr vs \<Longrightarrow> gather_in_order rs = Inr vs"
    by (simp add: gather_in_order_map_Inr)
qed

lemma gather_in_order_Inl:
  "gather_in_order rs = Inl err \<Longrightarrow>
   \<exists>i < length rs. rs ! i = Inl err \<and> (\<forall>j < i. \<exists>v. rs ! j = Inr v)"
proof (induction rs)
  case Nil
  then show ?case by simp
next
  case (Cons r rs)
  show ?case
  proof (cases r)
    case (Inl a)
    with Cons.prems have "a = err" by simp
    with Inl have "(r # rs) ! 0 = Inl err \<and> (\<forall>j < 0. \<exists>v. (r # rs) ! j = Inr v)" by simp
    then show ?thesis by blast
  next
    case (Inr v)
    with Cons.prems have "gather_in_order rs = Inl err"
      by (simp split: sum.splits)
    from Cons.IH [OF this] obtain i where i: "i < length rs" "rs ! i = Inl err"
      "\<forall>j < i. \<exists>v. rs ! j = Inr v" by blast
    have "\<forall>j < Suc i. \<exists>w. (r # rs) ! j = Inr w"
    proof (intro allI impI)
      fix j assume "j < Suc i"
      then show "\<exists>w. (r # rs) ! j = Inr w"
        using Inr i(3) by (cases j) auto
    qed
    with i show ?thesis
      by (intro exI [of _ "Suc i"]) simp
  qed
qed

section \<open>The parallel upload keeps the input order\<close>

text \<open>
  C6. \<open>list(executor.map(upload_to_heygen, image_paths))\<close>: whatever order the
  uploads finish in under the pool of five workers (\<open>pick\<close>), the call gives what
  reading the upload results in input order gives. When it returns a list, the list
  is as long as the list of paths and its element \<open>i\<close> is the asset id that the
  upload of path \<open>i\<close> returned; it returns a list when every upload returns; and when
  it raises, it raises the exception of the first upload, in input order, that raised.
  The upload function is arbitrary, so this covers \<open>upload_to_heygen\<close> of both
  scripts that use the pool.
\<close>

theorem parallel_upload_keeps_input_order:
  "executor_map pick upload paths =
     Some (gather_in_order (map (\<lambda>i. upload i (paths ! i)) [0..<length paths]))
   \<and> (executor_map pick upload paths = Some (Inr ids) \<longrightarrow>
        length ids = length paths
        \<and> (\<forall>i < length paths. upload i (paths ! i) = Inr (ids ! i)))
   \<and> ((\<forall>i < length paths. \<exists>v. upload i (paths ! i) = Inr v) \<longrightarrow>
        (\<exists>ids. executor_map pick upload paths = Some (Inr ids)))
   \<and> (executor_map pick upload paths = Some (Inl err) \<longrightarrow>
        (\<exists>i < length paths. upload i (paths ! i) = Inl err
           \<and> (\<forall>j < i. \<exists>v. upload j (paths ! j) = Inr v)))"
proof (intro conjI impI)
  let ?rs = "map (\<lambda>i. upload i (paths ! i)) [0..<length paths]"
  show eq: "executor_map pick upload paths = Some (gather_in_order ?rs)"
    by (rule executor_map_eq)
  {
    assume "executor_map pick upload paths = Some (Inr ids)"
    then have rs: "?rs = map Inr ids"
      by (simp add: eq gather_in_order_Inr)
    have "length ?rs = length ids"
      unfolding rs by simp
    then show len: "length ids = length paths"
      by simp
    show "\<forall>i < length paths. upload i (paths ! i) = Inr (ids ! i)"
    proof (intro allI impI)
      fix i assume i: "i < length paths"
      have "?rs ! i = map Inr ids ! i"
        using rs by (rule arg_cong)
      then show "upload i (paths ! i) = Inr (ids ! i)"
        using i len by simp
    qed
  }
  {
    assume ok: "\<forall>i < length paths. \<exists>v. upload i (paths ! i) = Inr v"
    define ids where "ids = map (\<lambda>i. projr (upload i (paths ! i))) [0..<length paths]"
    have "?rs = map Inr ids"
      unfolding ids_def using ok by auto
    then have "executor_map pick upload paths = Some (Inr ids)"
      by (simp add: eq gather_in_order_Inr)
    then show "\<exists>ids. executor_map pick upload paths = Some (Inr ids)" ..
  }
  {
    assume "executor_map pick upload paths = Some (Inl err)"
    then have "gather_in_order ?rs = Inl err"
      by (simp add: eq)
    from gather_in_order_Inl [OF this]
    show "\<exists>i < length paths. upload i (paths ! i) = Inl err
           \<and> (\<forall>j < i. \<exists>v. upload j (paths ! j) = Inr v)"
      by auto
  }
qed

theorem parallel_upload_keeps_input_order_witness:
  "pool_order out_of_order 0 [0..<3] = [1, 0, 2]
   \<and> executor_map out_of_order (gs_upload_to_heygen example_env)
        [ascii ''a.png'', ascii ''b.png'', ascii ''c.png'']
      = Some (Inr [PStr (ascii ''asset'' @ [48]), PStr (ascii ''asset'' @ [49]),
                   PStr (ascii ''asset'' @ [50])])
   \<and> gs_upload_to_heygen example_env 1 (ascii ''b.png'') = Inr (PStr (ascii ''asset'' @ [49]))"
proof -
  have up: "\<And>i p. p \<noteq> ascii ''missing.png'' \<Longrightarrow>
      gs_upload_to_heygen example_env i p = Inr (PStr (ascii ''asset'' @ [48 + i]))"
    by (simp add: gs_upload_to_heygen_def example_env_def json_response_def and_then_def
        response_json_def getitem_def)
  have upt3: "[0..<3] = [0, 1, 2]"
    by (simp add: upt_rec)
  have "executor_map out_of_order (gs_upload_to_heygen example_env)
        [ascii ''a.png'', ascii ''b.png'', ascii ''c.png'']
      = Some (Inr [PStr (ascii ''asset'' @ [48]), PStr (ascii ''asset'' @ [49]),
                   PStr (ascii ''asset'' @ [50])])"
    using parallel_upload_keeps_input_order
      [of out_of_order "gs_upload_to_heygen example_env"
          "[ascii ''a.png'', ascii ''b.png'', ascii ''c.png'']"]
    by (simp add: upt3 up)
  moreover have "pool_order out_of_order 0 [0..<3] = [1, 0, 2]"
    by code_simp
  moreover have "gs_upload_to_heygen example_env 1 (ascii ''b.png'') = Inr (PStr (ascii ''asset'' @ [49]))"
    using up [of "ascii ''b.png''" 1] by simp
  ultimately show ?thesis by simp
qed

section \<open>Facts about \<open>create_full_video\<close>\<close>

lemma gs_create_full_video_eq:
  "gs_create_full_video pick e image_paths scripts =
     Some (case gather_in_order
                  (map (\<lambda>i. gs_upload_to_heygen e i (image_paths ! i)) [0..<length image_paths]) of
             Inl err \<Rightarrow> ([], Inl err)
           | Inr bg_ids \<Rightarrow>
               ([gs_payload bg_ids scripts], gs_post_generate e (gs_payload bg_ids scripts)))"
  by (simp add: gs_create_full_video_def executor_map_eq split: sum.splits)

lemma yt_create_full_video_eq:
  "yt_create_full_video pick e image_paths scripts =
     Some (case gather_in_order
                  (map (\<lambda>i. yt_upload_to_heygen e i (image_paths ! i)) [0..<length image_paths]) of
             Inl err \<Rightarrow> ([], Inl err)
           | Inr bg_ids \<Rightarrow>
               ([yt_payload bg_ids scripts], yt_post_generate e (yt_payload bg_ids scripts)))"
  by (simp add: yt_create_full_video_def executor_map_eq split: sum.splits)

lemma gather_uploads_Inr:
  "gather_in_order (map (\<lambda>i. upload i (paths ! i)) [0..<length paths]) = Inr ids \<Longrightarrow>
   length ids = length paths \<and> (\<forall>i < length paths. upload i (paths ! i) = Inr (ids ! i))"
proof -
  let ?rs = "map (\<lambda>i. upload i (paths ! i)) [0..<length paths]"
  assume "gather_in_order ?rs = Inr ids"
  then have rs: "?rs = map Inr ids"
    by (simp add: gather_in_order_Inr)
  have "length ?rs = length ids"
    unfolding rs by simp
  then have len: "length ids = length paths"
    by simp
  have "\<forall>i < length paths. upload i (paths ! i) = Inr (ids ! i)"
  proof (intro allI impI)
    fix i assume i: "i < length paths"
    have "?rs ! i = map Inr ids ! i"
      using rs by (rule arg_cong)
    then show "upload i (paths ! i) = Inr (ids ! i)"
      using i len by simp
  qed
  with len show ?thesis by simp
qed

lemma gather_uploads_all:
  "\<forall>i < length paths. \<exists>v. upload i (paths ! i) = Inr v \<Longrightarrow>
   \<exists>ids. gather_in_order (map (\<lambda>i. upload i (paths ! i)) [0..<length paths]) = Inr ids"
proof -
  assume ok: "\<forall>i < length paths. \<exists>v. upload i (paths ! i) = Inr v"
  define ids where "ids = map (\<lambda>i. projr (upload i (paths ! i))) [0..<length paths]"
  have "map (\<lambda>i. upload i (paths ! i)) [0..<length paths] = map Inr ids"
    unfolding ids_def using ok by auto
  then show ?thesis
    by (auto simp add: gather_in_order_Inr)
qed

lemma replace_all_single:
  "replace_all [a] new s = concat (map (\<lambda>c. if c = a then new else [c]) s)"
  by (induction s) auto

lemma comma_pause:
  "py_replace fullwidth_comma fullwidth_comma_space s =
     concat (map (\<lambda>c. if c = 65292 then [65292, 32] else [c]) s)"
  by (simp add: py_replace_def fullwidth_comma_def fullwidth_comma_space_def replace_all_single)

lemma gs_payload_nth:
  "i < length bg_ids \<Longrightarrow> i < length scripts \<Longrightarrow>
   video_inputs (gs_payload bg_ids scripts) ! i = gs_scene (bg_ids ! i) (scripts ! i)"
  by (simp add: gs_payload_def)

lemma yt_payload_nth:
  "i < length bg_ids \<Longrightarrow> i < length scripts \<Longrightarrow>
   video_inputs (yt_payload bg_ids scripts) ! i = yt_scene (bg_ids ! i) (scripts ! i)"
  by (simp add: yt_payload_def)

lemma gs_payload_length:
  "length (video_inputs (gs_payload bg_ids scripts)) = min (length bg_ids) (length scripts)"
  by (simp add: gs_payload_def)

lemma yt_payload_length:
  "length (video_inputs (yt_payload bg_ids scripts)) = min (length bg_ids) (length scripts)"
  by (simp add: yt_payload_def)

lemma gs_posted:
  "gs_create_full_video pick e image_paths scripts = Some (bodies, res) \<Longrightarrow> body \<in> set bodies \<Longrightarrow>
   \<exists>bg_ids. body = gs_payload bg_ids scripts \<and> bodies = [body]
     \<and> res = gs_post_generate e body
     \<and> length bg_ids = length image_paths
     \<and> (\<forall>i < length image_paths. gs_upload_to_heygen e i (image_paths ! i) = Inr (bg_ids ! i))"
proof -
  assume a: "gs_create_full_video pick e image_paths scripts = Some (bodies, res)"
    and b: "body \<in> set bodies"
  obtain bg_ids where g: "gather_in_order
        (map (\<lambda>i. gs_upload_to_heygen e i (image_paths ! i)) [0..<length image_paths]) = Inr bg_ids"
    and bodies: "bodies = [gs_payload bg_ids scripts]"
    and res: "res = gs_post_generate e (gs_payload bg_ids scripts)"
    using a b by (auto simp add: gs_create_full_video_eq split: sum.splits)
  have "length bg_ids = length image_paths
     \<and> (\<forall>i < length image_paths. gs_upload_to_heygen e i (image_paths ! i) = Inr (bg_ids ! i))"
    using g by (rule gather_uploads_Inr [of "gs_upload_to_heygen e" image_paths bg_ids])
  then show ?thesis
    using b bodies res by (intro exI [of _ bg_ids]) simp
qed

lemma yt_posted:
  "yt_create_full_video pick e image_paths scripts = Some (bodies, res) \<Longrightarrow> body \<in> set bodies \<Longrightarrow>
   \<exists>bg_ids. body = yt_payload bg_ids scripts \<and> bodies = [body]
     \<and> res = yt_post_generate e body
     \<and> length bg_ids = length image_paths
     \<and> (\<forall>i < length image_paths. yt_upload_to_heygen e i (image_paths ! i) = Inr (bg_ids ! i))"
proof -
  assume a: "yt_create_full_video pick e image_paths scripts = Some (bodies, res)"
    and b: "body \<in> set bodies"
  obtain bg_ids where g: "gather_in_order
        (map (\<lambda>i. yt_upload_to_heygen e i (image_paths ! i)) [0..<length image_paths]) = Inr bg_ids"
    and bodies: "bodies = [yt_payload bg_ids scripts]"
    and res: "res = yt_post_generate e (yt_payload bg_ids scripts)"
    using a b by (auto simp add: yt_create_full_video_eq split: sum.splits)
  have "length bg_ids = length image_paths
     \<and> (\<forall>i < length image_paths. yt_upload_to_heygen e i (image_paths ! i) = Inr (bg_ids ! i))"
    using g by (rule gather_uploads_Inr [of "yt_upload_to_heygen e" image_paths bg_ids])
  then show ?thesis
    using b bodies res by (intro exI [of _ bg_ids]) simp
qed

lemma gs_posts_when_uploaded:
  "\<forall>i < length image_paths. \<exists>v. gs_upload_to_heygen e i (image_paths ! i) = Inr v \<Longrightarrow>
   \<exists>body. gs_create_full_video pick e image_paths scripts = Some ([body], gs_post_generate e body)"
  by (drule gather_uploads_all) (auto simp add: gs_create_full_video_eq)

lemma yt_posts_when_uploaded:
  "\<forall>i < length image_paths. \<exists>v. yt_upload_to_heygen e i (image_paths ! i) = Inr v \<Longrightarrow>
   \<exists>body. yt_create_full_video pick e image_paths scripts = Some ([body], yt_post_generate e body)"
  by (drule gather_uploads_all) (auto simp add: yt_create_full_video_eq)

section \<open>Facts about the example environment\<close>

lemma example_gs_upload:
  "p \<noteq> ascii ''missing.png'' \<Longrightarrow>
   gs_upload_to_heygen example_env i p = Inr (PStr (ascii ''asset'' @ [48 + i]))"
  by (simp add: gs_upload_to_heygen_def example_env_def json_response_def and_then_def
      response_json_def getitem_def)

lemma example_yt_upload:
  "p \<noteq> ascii ''missing.png'' \<Longrightarrow>
   yt_upload_to_heygen example_env i p = Inr (PStr (ascii ''asset'' @ [48 + i]))"
  by (simp add: yt_upload_to_heygen_def example_env_def json_response_def and_then_def
      response_json_def getitem_def response_ok_def)


lemma example_gs_post: "gs_post_generate example_env body = Inr (PStr (ascii ''v1''))"
  by (simp add: gs_post_generate_def example_env_def json_response_def and_then_def
      response_json_def getitem_def)

lemma example_yt_post: "yt_post_generate example_env body = Inr (PStr (ascii ''v1''))"
  by (simp add: yt_post_generate_def example_env_def json_response_def and_then_def
      response_json_def getitem_def response_ok_def)

lemma example_ppt_post: "ppt_post_generate example_env body = Inr (PStr (ascii ''v1''))"
  by (simp add: ppt_post_generate_def example_env_def json_response_def and_then_def
      response_json_def getitem_def get_method_def dict_get_def)

lemma upt_2: "[0..<2] = [0, 1]"
  by (simp add: upt_rec)

lemma example_gs_create:
  "gs_create_full_video pick example_env [ascii ''a.png'', ascii ''b.png''] [s0, s1] =
     Some ([gs_payload [PStr (ascii ''asset'' @ [48]), PStr (ascii ''asset'' @ [49])] [s0, s1]],
           Inr (PStr (ascii ''v1'')))"
  by (simp add: gs_create_full_video_eq upt_2 example_gs_upload example_gs_post)

lemma example_yt_create:
  "yt_create_full_video pick example_env [ascii ''a.png'', ascii ''b.png''] [s0, s1] =
     Some ([yt_payload [PStr (ascii ''asset'' @ [48]), PStr (ascii ''asset'' @ [49])] [s0, s1]],
           Inr (PStr (ascii ''v1'')))"
  by (simp add: yt_create_full_video_eq upt_2 example_yt_upload example_yt_post)

section \<open>Scene order in the request\<close>

text \<open>
  C1. \<open>create_full_video\<close> of \<open>HeyGen_GoogleSearch\<close> and \<open>HeyGen_Youtube\<close>, given
  as many scripts as images: every body it posts has one scene per image, in input
  order. Scene \<open>i\<close> has as \<open>image_asset_id\<close> the id that the upload of image \<open>i\<close>
  returned, and as \<open>input_text\<close> script \<open>i\<close> with a space put after every full-width
  comma. When every upload returns, exactly one body is posted.
\<close>

theorem scenes_follow_input_order:
  assumes "length scripts = length image_paths"
  shows "(gs_create_full_video pick e image_paths scripts = Some (bodies, res) \<and> body \<in> set bodies \<longrightarrow>
            length (video_inputs body) = length image_paths
            \<and> (\<forall>i < length image_paths.
                  gs_upload_to_heygen e i (image_paths ! i)
                    = Inr (image_asset_id (background (video_inputs body ! i)))
                  \<and> input_text (voice (video_inputs body ! i))
                    = py_replace fullwidth_comma fullwidth_comma_space (scripts ! i)))
       \<and> (yt_create_full_video pick e image_paths scripts = Some (bodies, res) \<and> body \<in> set bodies \<longrightarrow>
            length (video_inputs body) = length image_paths
            \<and> (\<forall>i < length image_paths.
                  yt_upload_to_heygen e i (image_paths ! i)
                    = Inr (image_asset_id (background (video_inputs body ! i)))
                  \<and> input_text (voice (video_inputs body ! i))
                    = py_replace fullwidth_comma fullwidth_comma_space (scripts ! i)))
       \<and> ((\<forall>i < length image_paths. \<exists>v. gs_upload_to_heygen e i (image_paths ! i) = Inr v) \<longrightarrow>
            (\<exists>b. gs_create_full_video pick e image_paths scripts = Some ([b], gs_post_generate e b)))
       \<and> ((\<forall>i < length image_paths. \<exists>v. yt_upload_to_heygen e i (image_paths ! i) = Inr v) \<longrightarrow>
            (\<exists>b. yt_create_full_video pick e image_paths scripts = Some ([b], yt_post_generate e b)))
       \<and> py_replace fullwidth_comma fullwidth_comma_space (scripts ! k)
            = concat (map (\<lambda>c. if c = 65292 then [65292, 32] else [c]) (scripts ! k))"
proof (intro conjI impI)
  assume "gs_create_full_video pick e image_paths scripts = Some (bodies, res) \<and> body \<in> set bodies"
  then obtain bg_ids where body: "body = gs_payload bg_ids scripts"
    and len: "length bg_ids = length image_paths"
    and up: "\<forall>i < length image_paths. gs_upload_to_heygen e i (image_paths ! i) = Inr (bg_ids ! i)"
    using gs_posted [of pick e image_paths scripts bodies res body] by blast
  show "length (video_inputs body) = length image_paths"
    using assms len by (simp add: body gs_payload_length)
  show "\<forall>i < length image_paths.
          gs_upload_to_heygen e i (image_paths ! i)
            = Inr (image_asset_id (background (video_inputs body ! i)))
          \<and> input_text (voice (video_inputs body ! i))
            = py_replace fullwidth_comma fullwidth_comma_space (scripts ! i)"
    using assms len up by (simp add: body gs_payload_nth gs_scene_def)
next
  assume "yt_create_full_video pick e image_paths scripts = Some (bodies, res) \<and> body \<in> set bodies"
  then obtain bg_ids where body: "body = yt_payload bg_ids scripts"
    and len: "length bg_ids = length image_paths"
    and up: "\<forall>i < length image_paths. yt_upload_to_heygen e i (image_paths ! i) = Inr (bg_ids ! i)"
    using yt_posted [of pick e image_paths scripts bodies res body] by blast
  show "length (video_inputs body) = length image_paths"
    using assms len by (simp add: body yt_payload_length)
  show "\<forall>i < length image_paths.
          yt_upload_to_heygen e i (image_paths ! i)
            = Inr (image_asset_id (background (video_inputs body ! i)))
          \<and> input_text (voice (video_inputs body ! i))
            = py_replace fullwidth_comma fullwidth_comma_space (scripts ! i)"
    using assms len up by (simp add: body yt_payload_nth yt_scene_def)
next
  assume "\<forall>i < length image_paths. \<exists>v. gs_upload_to_heygen e i (image_paths ! i) = Inr v"
  then show "\<exists>b. gs_create_full_video pick e image_paths scripts = Some ([b], gs_post_generate e b)"
    by (rule gs_posts_when_uploaded)
next
  assume "\<forall>i < length image_paths. \<exists>v. yt_upload_to_heygen e i (image_paths ! i) = Inr v"
  then show "\<exists>b. yt_create_full_video pick e image_paths scripts = Some ([b], yt_post_generate e b)"
    by (rule yt_posts_when_uploaded)
next
  show "py_replace fullwidth_comma fullwidth_comma_space (scripts ! k)
            = concat (map (\<lambda>c. if c = 65292 then [65292, 32] else [c]) (scripts ! k))"
    by (rule comma_pause)
qed

theorem scenes_follow_input_order_witness:
  "gs_create_full_video out_of_order example_env
       [ascii ''a.png'', ascii ''b.png''] [[20320, 65292, 22909], ascii ''ok'']
     = Some ([gs_payload [PStr (ascii ''asset'' @ [48]), PStr (ascii ''asset'' @ [49])]
                [[20320, 65292, 22909], ascii ''ok'']],
             Inr (PStr (ascii ''v1'')))
   \<and> image_asset_id (background (video_inputs
        (gs_payload [PStr (ascii ''asset'' @ [48]), PStr (ascii ''asset'' @ [49])]
           [[20320, 65292, 22909], ascii ''ok'']) ! 1))
     = PStr (ascii ''asset'' @ [49])
   \<and> input_text (voice (video_inputs
        (gs_payload [PStr (ascii ''asset'' @ [48]), PStr (ascii ''asset'' @ [49])]
           [[20320, 65292, 22909], ascii ''ok'']) ! 0))
     = [20320, 65292, 32, 22909]"
proof -
  let ?paths = "[ascii ''a.png'', ascii ''b.png'']"
  let ?scripts = "[[20320, 65292, 22909], ascii ''ok'']"
  let ?body = "gs_payload [PStr (ascii ''asset'' @ [48]), PStr (ascii ''asset'' @ [49])] ?scripts"
  have len: "length ?scripts = length ?paths"
    by simp
  have run: "gs_create_full_video out_of_order example_env ?paths ?scripts
      = Some ([?body], Inr (PStr (ascii ''v1'')))"
    by (rule example_gs_create)
  note inst = scenes_follow_input_order
    [OF len, of out_of_order example_env "[?body]" "Inr (PStr (ascii ''v1''))" ?body 0]
  from inst run have all: "\<forall>i < length ?paths.
      gs_upload_to_heygen example_env i (?paths ! i)
        = Inr (image_asset_id (background (video_inputs ?body ! i)))
      \<and> input_text (voice (video_inputs ?body ! i))
        = py_replace fullwidth_comma fullwidth_comma_space (?scripts ! i)"
    by simp
  have "gs_upload_to_heygen example_env 1 (?paths ! 1)
        = Inr (image_asset_id (background (video_inputs ?body ! 1)))"
    using all [rule_format, of 1] by simp
  then have a: "image_asset_id (background (video_inputs ?body ! 1)) = PStr (ascii ''asset'' @ [49])"
    by (simp add: example_gs_upload)
  have "input_text (voice (video_inputs ?body ! 0))
        = py_replace fullwidth_comma fullwidth_comma_space (?scripts ! 0)"
    using all [rule_format, of 0] by simp
  moreover from inst have "py_replace fullwidth_comma fullwidth_comma_space (?scripts ! 0)
        = concat (map (\<lambda>c. if c = 65292 then [65292, 32] else [c]) (?scripts ! 0))"
    by simp
  ultimately have b: "input_text (voice (video_inputs ?body ! 0)) = [20320, 65292, 32, 22909]"
    by simp
  from run a b show ?thesis by simp
qed






section \<open>Lists of different lengths\<close>




lemma ascii_is_Nil [simp]: "(ascii s = []) = (s = [])"
  by (simp add: ascii_def)



lemma declining_yt_upload:
  "p \<noteq> ascii ''missing.png'' \<Longrightarrow>
   yt_upload_to_heygen declining_env i p = Inr (PStr (ascii ''asset'' @ [48 + i]))"
  by (simp add: yt_upload_to_heygen_def declining_env_def example_env_def json_response_def
      and_then_def response_json_def getitem_def response_ok_def)

section \<open>An empty list of scenes\<close>

text \<open>
  C8, as the scripts have it. No variant of \<open>create_full_video\<close> checks its lists.
  Called with no image, it uploads nothing and posts one body whose \<open>video_inputs\<close>
  is empty, and it ends as that post ends; in \<open>HeyGen_PPT\<close> the same holds when
  there is no script.
\<close>

theorem empty_scene_list_is_posted:
  "gs_create_full_video pick e [] scripts
     = Some ([gs_payload [] scripts], gs_post_generate e (gs_payload [] scripts))
   \<and> yt_create_full_video pick e [] scripts
     = Some ([yt_payload [] scripts], yt_post_generate e (yt_payload [] scripts))
   \<and> ppt_create_full_video e [] scripts
     = ([ppt_payload []], ppt_post_generate e (ppt_payload []))
   \<and> ppt_create_full_video e image_paths []
     = ([ppt_payload []], ppt_post_generate e (ppt_payload []))
   \<and> video_inputs (gs_payload [] scripts) = []
   \<and> video_inputs (yt_payload [] scripts) = []
   \<and> video_inputs (ppt_payload []) = []"
  by (simp add: gs_create_full_video_eq yt_create_full_video_eq ppt_create_full_video_def
      gs_payload_def yt_payload_def ppt_payload_def)

theorem empty_scene_list_is_posted_witness:
  "yt_create_full_video out_of_order example_env [] []
     = Some ([yt_payload [] []], Inr (PStr (ascii ''v1'')))
   \<and> video_inputs (yt_payload [] []) = []"
  using empty_scene_list_is_posted [of out_of_order example_env "[]" "[]"]
  by (simp add: example_yt_post)

text \<open>
  Where C8 as written fails: with no image and no script the request still goes out, and
  the call returns the video id of the reply.
\<close>

theorem empty_scene_list_counterexample:
  "gs_create_full_video out_of_order example_env [] []
     = Some ([\<lparr> video_inputs = [], aspect_ratio = ascii ''16:9'', test = False,
                caption = True, dimension = None \<rparr>],
             Inr (PStr (ascii ''v1'')))
   \<and> ppt_create_full_video example_env [] []
     = ([\<lparr> video_inputs = [], aspect_ratio = ascii ''16:9'', test = False,
           caption = True, dimension = Some (1280, 720) \<rparr>],
        Inr (PStr (ascii ''v1'')))"
  by (simp add: gs_create_full_video_eq ppt_create_full_video_def gs_payload_def ppt_payload_def
      example_gs_post example_ppt_post)

section \<open>The reply to the submit request\<close>




section \<open>Facts about the polling loops\<close>


lemma later_None [simp]: "(later evs r = None) = (r = None)"
  by (auto simp add: later_def split: option.splits)

lemma later_Some_eq [simp]: "later evs (Some (tr, res)) = Some (evs @ tr, res)"
  by (simp add: later_def)

lemma later_later: "later evs (later evs' r) = later (evs @ evs') r"
  by (auto simp add: later_def split: option.splits)

lemma later_Nil [simp]: "later [] r = r"
  by (auto simp add: later_def split: option.splits)

lemma status_requests_simps [simp]:
  "status_requests [] = 0"
  "status_requests (Status v # tr) = Suc (status_requests tr)"
  "status_requests (Sleep s # tr) = status_requests tr"
  "status_requests (Open_wb p # tr) = status_requests tr"
  "status_requests (Fetch u # tr) = status_requests tr"
  "status_requests (Write p b # tr) = status_requests tr"
  "status_requests (Report m # tr) = status_requests tr"
  "status_requests (Save_caption p t # tr) = status_requests tr"
  "status_requests (tr @ tr') = status_requests tr + status_requests tr'"
  by (simp_all add: status_requests_def)

lemma downloads_simps [simp]:
  "downloads [] = 0"
  "downloads (Status v # tr) = downloads tr"
  "downloads (Sleep s # tr) = downloads tr"
  "downloads (Open_wb p # tr) = downloads tr"
  "downloads (Fetch u # tr) = Suc (downloads tr)"
  "downloads (Write p b # tr) = downloads tr"
  "downloads (Report m # tr) = downloads tr"
  "downloads (Save_caption p t # tr) = downloads tr"
  "downloads (tr @ tr') = downloads tr + downloads tr'"
  by (simp_all add: downloads_def)

lemma gs_save_no_status [simp]: "status_requests (fst (gs_save e n path url)) = 0"
  by (simp add: gs_save_def split: http_reply.splits)

lemma gs_completed_no_status [simp]:
  "status_requests (fst (gs_completed e n out data)) = 0"
proof -
  have "status_requests evs = 0"
    if "gs_save e n path url = (evs, res)" for path url evs res
    using gs_save_no_status [of e n path url] that by simp
  then show ?thesis
    by (auto simp add: gs_completed_def split: prod.splits sum.splits)
qed

subsection \<open>One round of \<open>HeyGen_GoogleSearch\<close>\<close>

lemma gs_round_hiccup:
  "gs_poll_status e n video_id = Inl err \<Longrightarrow>
   gs_download_video e video_id out n (Suc fuel) =
     later [Status video_id, Sleep 5] (gs_download_video e video_id out (Suc n) fuel)"
  by simp

lemma gs_round_in_progress:
  "gs_poll_status e n video_id = Inr (data, status) \<Longrightarrow> \<not> terminal_status status \<Longrightarrow>
   gs_download_video e video_id out n (Suc fuel) =
     later [Status video_id, Sleep 15] (gs_download_video e video_id out (Suc n) fuel)"
  by (simp add: terminal_status_def)


lemma gs_round_failed:
  "gs_poll_status e n video_id = Inr (data, PStr (ascii ''failed'')) \<Longrightarrow>
   gs_download_video e video_id out n (Suc fuel) =
     Some ([Status video_id],
           Inl (Exception [Lit render_failed, Fmt (dict_get data (ascii ''error'') PNone)]))"
  by simp

declare gs_download_video.simps(2) [simp del]

lemma gs_round_not_terminal:
  "\<not> gs_terminal e n video_id \<Longrightarrow>
   \<exists>s. gs_download_video e video_id out n (Suc fuel) =
     later [Status video_id, Sleep s] (gs_download_video e video_id out (Suc n) fuel)"
proof (cases "gs_poll_status e n video_id")
  case (Inl err)
  then show ?thesis
    using gs_round_hiccup [of e n video_id err out fuel] by blast
next
  case (Inr p)
  obtain data status where p: "p = (data, status)"
    by (cases p)
  assume "\<not> gs_terminal e n video_id"
  with Inr p have "\<not> terminal_status status"
    by (simp add: gs_terminal_def)
  with Inr p show ?thesis
    using gs_round_in_progress [of e n video_id data status out fuel] by blast
qed


subsection \<open>The whole loop of \<open>HeyGen_GoogleSearch\<close>\<close>


lemma gs_waits:
  "\<forall>j < k. \<not> gs_terminal e (n + j) video_id \<Longrightarrow>
   \<exists>w. gs_download_video e video_id out n (k + fuel) =
          later w (gs_download_video e video_id out (n + k) fuel)
      \<and> status_requests w = k \<and> downloads w = 0"
proof (induction k arbitrary: n)
  case 0
  show ?case
    by (intro exI [of _ "[]"]) simp
next
  case (Suc k)
  from Suc.prems have "\<not> gs_terminal e n video_id"
    by (metis add.right_neutral zero_less_Suc)
  from gs_round_not_terminal [OF this, of out "k + fuel"] obtain s where
    step: "gs_download_video e video_id out n (Suc (k + fuel)) =
         later [Status video_id, Sleep s] (gs_download_video e video_id out (Suc n) (k + fuel))"
    by blast
  have "\<forall>j < k. \<not> gs_terminal e (Suc n + j) video_id"
  proof (intro allI impI)
    fix j assume "j < k"
    then have "Suc j < Suc k" by simp
    from Suc.prems [rule_format, OF this] show "\<not> gs_terminal e (Suc n + j) video_id"
      by simp
  qed
  from Suc.IH [OF this] obtain w where
    w: "gs_download_video e video_id out (Suc n) (k + fuel) =
          later w (gs_download_video e video_id out (Suc n + k) fuel)"
      "status_requests w = k" "downloads w = 0"
    by blast
  have "gs_download_video e video_id out n (Suc k + fuel) =
      later ([Status video_id, Sleep s] @ w) (gs_download_video e video_id out (n + Suc k) fuel)"
    using step w(1) by (simp add: later_later)
  with w(2,3) show ?case
    by (intro exI [of _ "[Status video_id, Sleep s] @ w"]) simp
qed



subsection \<open>One round of \<open>HeyGen_PPT\<close>\<close>

lemma ppt_caption_no_status [simp]: "status_requests (ppt_caption e n out url) = 0"
  by (simp add: ppt_caption_def split: http_reply.splits)

lemma ppt_round_not_terminal:
  "\<not> ppt_terminal e n video_id \<Longrightarrow>
   ppt_round e n video_id out = ([Status video_id, Sleep 10], False)"
  by (auto simp add: ppt_round_def ppt_terminal_def terminal_status_def split: sum.splits)


lemma ppt_round_failed:
  "ppt_poll_status e n video_id = Inr (data, PStr (ascii ''failed'')) \<Longrightarrow>
   ppt_round e n video_id out =
     ([Status video_id,
       Report [Lit (ascii ''    '' @ render_failed), Fmt (dict_get data (ascii ''error'') PNone)]],
      True)"
  by (simp add: ppt_round_def)


lemma ppt_round_one_status [simp]: "status_requests (fst (ppt_round e n video_id out)) = Suc 0"
  by (auto simp add: ppt_round_def split: sum.splits http_reply.splits)

lemma ppt_step_again:
  "\<not> snd (ppt_round e n video_id out) \<Longrightarrow>
   ppt_download_video e video_id out n (Suc fuel) =
     later (fst (ppt_round e n video_id out)) (ppt_download_video e video_id out (Suc n) fuel)"
  by (cases "ppt_round e n video_id out") simp

lemma ppt_step_break:
  "snd (ppt_round e n video_id out) \<Longrightarrow>
   ppt_download_video e video_id out n (Suc fuel) = Some (fst (ppt_round e n video_id out), Inr ())"
  by (cases "ppt_round e n video_id out") simp

declare ppt_download_video.simps(2) [simp del]

subsection \<open>The whole loop of \<open>HeyGen_PPT\<close>\<close>


lemma ppt_waits:
  "\<forall>j < k. \<not> ppt_terminal e (n + j) video_id \<Longrightarrow>
   \<exists>w. ppt_download_video e video_id out n (k + fuel) =
          later w (ppt_download_video e video_id out (n + k) fuel)
      \<and> status_requests w = k \<and> downloads w = 0"
proof (induction k arbitrary: n)
  case 0
  show ?case
    by (intro exI [of _ "[]"]) simp
next
  case (Suc k)
  from Suc.prems have "\<not> ppt_terminal e n video_id"
    by (metis add.right_neutral zero_less_Suc)
  then have round: "ppt_round e n video_id out = ([Status video_id, Sleep 10], False)"
    by (rule ppt_round_not_terminal)
  then have step: "ppt_download_video e video_id out n (Suc (k + fuel)) =
         later [Status video_id, Sleep 10] (ppt_download_video e video_id out (Suc n) (k + fuel))"
    using ppt_step_again [of e n video_id out "k + fuel"] by simp
  have "\<forall>j < k. \<not> ppt_terminal e (Suc n + j) video_id"
  proof (intro allI impI)
    fix j assume "j < k"
    then have "Suc j < Suc k" by simp
    from Suc.prems [rule_format, OF this] show "\<not> ppt_terminal e (Suc n + j) video_id"
      by simp
  qed
  from Suc.IH [OF this] obtain w where
    w: "ppt_download_video e video_id out (Suc n) (k + fuel) =
          later w (ppt_download_video e video_id out (Suc n + k) fuel)"
      "status_requests w = k" "downloads w = 0"
    by blast
  have "ppt_download_video e video_id out n (Suc k + fuel) =
      later ([Status video_id, Sleep 10] @ w) (ppt_download_video e video_id out (n + Suc k) fuel)"
    using step w(1) by (simp add: later_later)
  with w(2,3) show ?case
    by (intro exI [of _ "[Status video_id, Sleep 10] @ w"]) simp
qed







section \<open>Transport errors while polling and while submitting\<close>



section \<open>Facts about the example status endpoints\<close>








section \<open>When the polling stops\<close>




lemma failing_gs_poll_0:
  "gs_poll_status failing_env 0 video_id = Inr (processing_data, PStr (ascii ''processing''))"
  by (simp add: gs_poll_status_def failing_env_def processing_reply_def json_response_def
      response_json_def and_then_def get_method_def dict_get_def processing_data_def)

lemma failing_gs_poll_later:
  "0 < n \<Longrightarrow> gs_poll_status failing_env n video_id = Inr (failed_data, PStr (ascii ''failed''))"
  by (simp add: gs_poll_status_def failing_env_def failed_reply_def json_response_def
      response_json_def and_then_def get_method_def dict_get_def failed_data_def)

lemma failing_ppt_poll_0:
  "ppt_poll_status failing_env 0 video_id = Inr (processing_data, PStr (ascii ''processing''))"
  by (simp add: ppt_poll_status_def failing_env_def processing_reply_def json_response_def
      response_json_def and_then_def getitem_def processing_data_def)

lemma failing_ppt_poll_later:
  "0 < n \<Longrightarrow> ppt_poll_status failing_env n video_id = Inr (failed_data, PStr (ascii ''failed''))"
  by (simp add: ppt_poll_status_def failing_env_def failed_reply_def json_response_def
      response_json_def and_then_def getitem_def failed_data_def)

lemma failed_data_error:
  "dict_get failed_data (ascii ''error'') PNone = PStr (ascii ''invalid asset'')"
  by (simp add: dict_get_def failed_data_def)

section \<open>A failed render\<close>

text \<open>
  C4, as the scripts have it. The first terminal status that the status endpoint
  reports is \<open>failed\<close>, in answer to request number \<open>k\<close>. Then the loop ends after
  \<open>k + 1\<close> status requests and no download request has been made.
  \<^item> \<open>HeyGen_GoogleSearch\<close> raises an exception whose message is the text
    \<open>render_failed\<close> followed by \<open>data.get('error')\<close>, the error detail of the reply.
  \<^item> \<open>HeyGen_PPT\<close> prints that message, after four spaces, and returns without
    raising.
\<close>

theorem failed_render_is_reported:
  "((\<forall>j < k. \<not> gs_terminal e j video_id)
      \<and> gs_poll_status e k video_id = Inr (data, PStr (ascii ''failed'')) \<longrightarrow>
      (\<exists>tr. gs_download_video e video_id out 0 (Suc k + fuel) =
               Some (tr, Inl (Exception [Lit render_failed,
                                         Fmt (dict_get data (ascii ''error'') PNone)]))
         \<and> status_requests tr = Suc k \<and> downloads tr = 0))
   \<and> ((\<forall>j < k. \<not> ppt_terminal e j video_id)
      \<and> ppt_poll_status e k video_id = Inr (data, PStr (ascii ''failed'')) \<longrightarrow>
      (\<exists>tr. ppt_download_video e video_id out 0 (Suc k + fuel) =
               Some (tr @ [Report [Lit (ascii ''    '' @ render_failed),
                                   Fmt (dict_get data (ascii ''error'') PNone)]], Inr ())
         \<and> status_requests tr = Suc k \<and> downloads tr = 0))"
proof (intro conjI impI)
  assume a: "(\<forall>j < k. \<not> gs_terminal e j video_id)
      \<and> gs_poll_status e k video_id = Inr (data, PStr (ascii ''failed''))"
  then have "\<forall>j < k. \<not> gs_terminal e (0 + j) video_id"
    by simp
  from gs_waits [OF this, of out "Suc fuel"] obtain w where
    w: "gs_download_video e video_id out 0 (k + Suc fuel) =
          later w (gs_download_video e video_id out k (Suc fuel))"
      "status_requests w = k" "downloads w = 0"
    by auto
  from a have "gs_download_video e video_id out k (Suc fuel) =
     Some ([Status video_id],
           Inl (Exception [Lit render_failed, Fmt (dict_get data (ascii ''error'') PNone)]))"
    by (simp add: gs_round_failed)
  with w(1) have "gs_download_video e video_id out 0 (Suc k + fuel) =
     Some (w @ [Status video_id],
           Inl (Exception [Lit render_failed, Fmt (dict_get data (ascii ''error'') PNone)]))"
    by simp
  with w(2,3) show "\<exists>tr. gs_download_video e video_id out 0 (Suc k + fuel) =
               Some (tr, Inl (Exception [Lit render_failed,
                                         Fmt (dict_get data (ascii ''error'') PNone)]))
         \<and> status_requests tr = Suc k \<and> downloads tr = 0"
    by (intro exI [of _ "w @ [Status video_id]"]) simp
next
  assume a: "(\<forall>j < k. \<not> ppt_terminal e j video_id)
      \<and> ppt_poll_status e k video_id = Inr (data, PStr (ascii ''failed''))"
  then have "\<forall>j < k. \<not> ppt_terminal e (0 + j) video_id"
    by simp
  from ppt_waits [OF this, of out "Suc fuel"] obtain w where
    w: "ppt_download_video e video_id out 0 (k + Suc fuel) =
          later w (ppt_download_video e video_id out k (Suc fuel))"
      "status_requests w = k" "downloads w = 0"
    by auto
  from a have "ppt_round e k video_id out =
     ([Status video_id,
       Report [Lit (ascii ''    '' @ render_failed), Fmt (dict_get data (ascii ''error'') PNone)]],
      True)"
    by (simp add: ppt_round_failed)
  then have "ppt_download_video e video_id out k (Suc fuel) =
     Some ([Status video_id,
       Report [Lit (ascii ''    '' @ render_failed), Fmt (dict_get data (ascii ''error'') PNone)]],
      Inr ())"
    using ppt_step_break [of e k video_id out fuel] by simp
  with w(1) have "ppt_download_video e video_id out 0 (Suc k + fuel) =
     Some ((w @ [Status video_id]) @
       [Report [Lit (ascii ''    '' @ render_failed), Fmt (dict_get data (ascii ''error'') PNone)]],
      Inr ())"
    by simp
  with w(2,3) show "\<exists>tr. ppt_download_video e video_id out 0 (Suc k + fuel) =
               Some (tr @ [Report [Lit (ascii ''    '' @ render_failed),
                                   Fmt (dict_get data (ascii ''error'') PNone)]], Inr ())
         \<and> status_requests tr = Suc k \<and> downloads tr = 0"
    by (intro exI [of _ "w @ [Status video_id]"]) simp
qed

theorem failed_render_is_reported_witness:
  "\<exists>tr. gs_download_video failing_env (PStr (ascii ''v1'')) (ascii ''o.mp4'') 0 (Suc 1 + 0) =
          Some (tr, Inl (Exception [Lit render_failed, Fmt (PStr (ascii ''invalid asset''))]))
      \<and> status_requests tr = Suc 1 \<and> downloads tr = 0"
proof -
  have nt: "\<forall>j < 1. \<not> gs_terminal failing_env j (PStr (ascii ''v1''))"
    by (simp add: gs_terminal_def failing_gs_poll_0 terminal_status_def)
  have f: "gs_poll_status failing_env 1 (PStr (ascii ''v1'')) =
      Inr (failed_data, PStr (ascii ''failed''))"
    by (simp add: failing_gs_poll_later)
  from failed_render_is_reported
    [of 1 failing_env "PStr (ascii ''v1'')" failed_data "ascii ''o.mp4''" 0] nt f
  have "\<exists>tr. gs_download_video failing_env (PStr (ascii ''v1'')) (ascii ''o.mp4'') 0 (Suc 1 + 0) =
          Some (tr, Inl (Exception [Lit render_failed,
                                    Fmt (dict_get failed_data (ascii ''error'') PNone)]))
      \<and> status_requests tr = Suc 1 \<and> downloads tr = 0"
    by blast
  then show ?thesis
    by (simp only: failed_data_error)
qed

text \<open>
  Where C4 as written fails: \<open>HeyGen_PPT\<close>, told \<open>failed\<close> with the detail
  \<open>invalid asset\<close>, prints the report and returns; nothing is raised.
\<close>

theorem failed_render_counterexample:
  "ppt_download_video failing_env (PStr (ascii ''v1'')) (ascii ''o.mp4'') 0 2 =
     Some ([Status (PStr (ascii ''v1'')), Sleep 10, Status (PStr (ascii ''v1'')),
            Report [Lit (ascii ''    '' @ render_failed), Fmt (PStr (ascii ''invalid asset''))]],
           Inr ())"
proof -
  have r0: "ppt_round failing_env 0 (PStr (ascii ''v1'')) (ascii ''o.mp4'') =
      ([Status (PStr (ascii ''v1'')), Sleep 10], False)"
    by (simp add: ppt_round_def failing_ppt_poll_0)
  have r1: "ppt_round failing_env (Suc 0) (PStr (ascii ''v1'')) (ascii ''o.mp4'') =
      ([Status (PStr (ascii ''v1'')),
        Report [Lit (ascii ''    '' @ render_failed), Fmt (PStr (ascii ''invalid asset''))]], True)"
    by (simp add: ppt_round_def failing_ppt_poll_later failed_data_error)
  show ?thesis
    by (simp add: numeral_2_eq_2 ppt_download_video.simps(2) r0 r1)
qed









section \<open>A completed render\<close>



end
